theory Spec2Isabelle
  imports Complex_Main
begin

unbundle bit_operations_syntax

section \<open>The Office temporal vortex generator (vortex\_ole\_payload.py)\<close>

text \<open>
  A shallow embedding of the class \<open>OLE_TemporalVortex\<close>. Python integers are \<open>int\<close>,
  byte buffers are lists of integers, and \<open>float\<close> values are idealised as real numbers
  (\<open>np.exp\<close> is \<open>exp\<close>, \<open>np.sin\<close> is \<open>sin\<close>): rounding of the 64-bit format is not
  modelled. Every place where the Python raises is a branch returning \<open>Inl\<close>. The wall
  clock, the hash function, the text templates and the archive writer are inputs of the
  model. Console output is left out. The four trailing remarks of the second
  \<open>struct.pack\<close> call, written after \<open>//\<close> in the source, are read as comments.
\<close>

subsection \<open>Python values\<close>

datatype py_exception = ZeroDivisionError | StructError | IndexError | OSError string

text \<open>\<open>int(x)\<close> on a float truncates towards zero.\<close>

definition py_int :: "real \<Rightarrow> int" where
  "py_int x = (if 0 \<le> x then \<lfloor>x\<rfloor> else \<lceil>x\<rceil>)"

text \<open>\<open>str(n)\<close> on an integer, as the f-strings render it.\<close>

function str_nat :: "nat \<Rightarrow> string" where
  "str_nat n =
     (if n < 10 then [char_of (48 + n)]
      else str_nat (n div 10) @ [char_of (48 + n mod 10)])"
  by pat_completeness auto
termination
  by (relation "measure (\<lambda>n. n)") auto

definition str_int :: "int \<Rightarrow> string" where
  "str_int i = (if i < 0 then CHR ''-'' # str_nat (nat (- i)) else str_nat (nat i))"

text \<open>
  \<open>struct.pack\<close> with the little-endian formats \<open>H\<close> and \<open>I\<close>: a value outside the
  unsigned range raises \<open>struct.error\<close>.
\<close>

definition le_bytes_H :: "int \<Rightarrow> int list" where
  "le_bytes_H n = [n mod 256, n div 256]"

definition le_bytes_I :: "int \<Rightarrow> int list" where
  "le_bytes_I n = [n mod 256, n div 256 mod 256, n div 65536 mod 256, n div 16777216]"

definition pack_H :: "int \<Rightarrow> py_exception + int list" where
  "pack_H n = (if 0 \<le> n \<and> n < 65536 then Inr (le_bytes_H n) else Inl StructError)"

definition pack_I :: "int \<Rightarrow> py_exception + int list" where
  "pack_I n = (if 0 \<le> n \<and> n < 4294967296 then Inr (le_bytes_I n) else Inl StructError)"

fun pack_fields :: "(int \<Rightarrow> py_exception + int list) \<Rightarrow> int list \<Rightarrow> py_exception + int list" where
  "pack_fields p [] = Inr []"
| "pack_fields p (x # xs) =
     (case p x of
        Inl e \<Rightarrow> Inl e
      | Inr b \<Rightarrow> (case pack_fields p xs of Inl e \<Rightarrow> Inl e | Inr bs \<Rightarrow> Inr (b @ bs)))"

text \<open>Reading an unsigned little-endian field back from a byte buffer.\<close>

fun le_value :: "int list \<Rightarrow> int" where
  "le_value [] = 0"
| "le_value (b # bs) = b + 256 * le_value bs"

definition header_field_I :: "int list \<Rightarrow> nat \<Rightarrow> int" where
  "header_field_I h k = le_value (take 4 (drop (32 + 4 * k) h))"

definition header_field_H :: "int list \<Rightarrow> nat \<Rightarrow> int" where
  "header_field_H h k = le_value (take 2 (drop (24 + 2 * k) h))"

subsection \<open>The object and its constants\<close>

record OLE_TemporalVortex =
  filename :: string
  alpha :: real
  layers :: int
  cascade_factor :: real
  clsid_vortex :: string
  progid_prefix :: string
  prime_windows :: "int list"

definition OLE_TemporalVortex_init :: "string \<Rightarrow> OLE_TemporalVortex" where
  "OLE_TemporalVortex_init name =
     \<lparr> filename = name,
       alpha = 302011 / 10000000,
       layers = 33,
       cascade_factor = (1 - exp (- (302011 / 10000000) * 33)) / (302011 / 10000000),
       clsid_vortex = ''{DEADC0DE-CAFE-BABE-0000-000000000033}'',
       progid_prefix = ''SCTT.Vortex'',
       prime_windows = [10007, 10009, 10037, 10039, 10061, 10067, 10069, 10079] \<rparr>"

subsection \<open>calculate\_ole\_temporal\_offset\<close>

text \<open>
  The argument \<open>now\<close> is what \<open>time.time()\<close> returns at the call. The division by
  \<open>self.layers\<close>, the modulo by the length of the prime list and the modulo by the
  selected prime raise \<open>ZeroDivisionError\<close> on zero, in this order.
\<close>

definition calculate_ole_temporal_offset ::
  "OLE_TemporalVortex \<Rightarrow> real \<Rightarrow> int \<Rightarrow> py_exception + real" where
  "calculate_ole_temporal_offset v now layer =
     (if 0 < layer \<and> layers v = 0 then Inl ZeroDivisionError
      else if prime_windows v = [] then Inl ZeroDivisionError
      else
        let base_offset = exp (- alpha v * real_of_int layer);
            base_offset =
              (if 0 < layer
               then base_offset *
                    (1 + alpha v * sin (2 * pi * real_of_int layer / real_of_int (layers v)))
               else base_offset);
            prime = prime_windows v ! nat (layer mod int (length (prime_windows v)));
            current_us = py_int (now * 1000000)
        in if prime = 0 then Inl ZeroDivisionError
           else Inr (base_offset *
                     (10000000 + 500000 *
                        (real_of_int (current_us mod prime) / real_of_int prime))))"

subsection \<open>generate\_vortex\_ole\_header\<close>

definition ole_signature :: "int list" where
  "ole_signature = [0xD0, 0xCF, 0x11, 0xE0, 0xA1, 0xB1, 0x1A, 0xE1]"

definition ole_clsid_bytes :: "int list" where
  "ole_clsid_bytes =
     [0x33, 0x00, 0x00, 0x00, 0xDE, 0xAD, 0xC0, 0xDE,
      0xCA, 0xFE, 0xBA, 0xBE, 0x00, 0x00, 0x00, 0x00]"

definition total_sectors :: "OLE_TemporalVortex \<Rightarrow> int \<Rightarrow> int" where
  "total_sectors v layer = py_int (4096 * exp (- alpha v * real_of_int layer))"

definition generate_vortex_ole_header ::
  "OLE_TemporalVortex \<Rightarrow> int \<Rightarrow> py_exception + int list" where
  "generate_vortex_ole_header v layer =
     (case pack_fields pack_H [0x003E, 0x0003, 0xFFFE, 0x0009] of
        Inl e \<Rightarrow> Inl e
      | Inr version \<Rightarrow>
          (case pack_fields pack_I
                  [total_sectors v layer, 0, 0x0000, 0x1000, 0xFFFFFFFE, 0xFFFFFFFF,
                   0x00001000, total_sectors v layer div 2, layer,
                   py_int (alpha v * 1000000)] of
             Inl e \<Rightarrow> Inl e
           | Inr sectors \<Rightarrow> Inr (ole_signature @ ole_clsid_bytes @ version @ sectors)))"

subsection \<open>create\_temporal\_ole\_object\<close>

text \<open>
  One pass of the loop \<open>for i in range(object_size)\<close>. The buffer \<open>ole_data\<close> already
  holds the header when the loop starts, and \<open>ole_data[i-1]\<close> indexes that buffer.
  \<open>1/self.alpha\<close> raises when \<open>alpha\<close> is zero.
\<close>

definition base_byte_of :: "OLE_TemporalVortex \<Rightarrow> int \<Rightarrow> int \<Rightarrow> int" where
  "base_byte_of v layer i =
     py_int (255 * exp (- alpha v * (real_of_int layer + real_of_int i / 100))) AND 0xFF"

definition pattern_of :: "int \<Rightarrow> int \<Rightarrow> int" where
  "pattern_of layer i = (if (layer + i) mod 2 = 0 then 0xAA else 0x55)"

definition synth_step ::
  "OLE_TemporalVortex \<Rightarrow> int \<Rightarrow> int list \<Rightarrow> int \<Rightarrow> py_exception + int list" where
  "synth_step v layer ole_data i =
     (if alpha v = 0 then Inl ZeroDivisionError
      else
        let position_factor = sin (2 * pi * real_of_int i / (1 / alpha v));
            base_byte = base_byte_of v layer i
        in if 0 < i \<and> length ole_data \<le> nat (i - 1) then Inl IndexError
           else
             let base_byte =
                   (if 0 < i then (ole_data ! nat (i - 1) XOR base_byte) AND 0xFF
                    else base_byte);
                 final_byte = base_byte XOR pattern_of layer i
             in Inr (ole_data @ [final_byte]))"

text \<open>The buffer after the first \<open>n\<close> passes of the loop.\<close>

primrec synth_loop ::
  "OLE_TemporalVortex \<Rightarrow> int \<Rightarrow> int list \<Rightarrow> nat \<Rightarrow> py_exception + int list" where
  "synth_loop v layer ole_data 0 = Inr ole_data"
| "synth_loop v layer ole_data (Suc n) =
     (case synth_loop v layer ole_data n of
        Inl e \<Rightarrow> Inl e
      | Inr d \<Rightarrow> synth_step v layer d (int n))"

definition object_size :: "OLE_TemporalVortex \<Rightarrow> int \<Rightarrow> int" where
  "object_size v layer = py_int (1024 * exp (- alpha v * real_of_int layer))"

record ole_object =
  clsid :: string
  progid :: string
  obj_size :: int
  temporal_offset :: real
  energy_level :: real
  obj_layer :: int
  obj_alpha :: real
  timestamp :: string
  obj_data :: "int list"
  checksum :: string

text \<open>
  What the code takes from outside: the hash (\<open>hashlib.sha256(...).hexdigest()\<close>), the
  wall clock at the \<open>k\<close>-th object creation (\<open>time.time()\<close> and the formatted
  \<open>datetime.now()\<close>), the clock at the start and at the end of a build, the text
  templates, and the archive (\<open>zipfile.ZipFile\<close>).
\<close>

datatype entry_name =
    ContentTypes | RootRels | DocumentRels | DocumentXml
  | OleObjectXml int | OleObjectBin int | VortexManifest

definition entry_path :: "entry_name \<Rightarrow> string" where
  "entry_path e =
     (case e of
        ContentTypes \<Rightarrow> ''[Content_Types].xml''
      | RootRels \<Rightarrow> ''_rels/.rels''
      | DocumentRels \<Rightarrow> ''word/_rels/document.xml.rels''
      | DocumentXml \<Rightarrow> ''word/document.xml''
      | OleObjectXml l \<Rightarrow> ''word/embeddings/oleObject'' @ str_int l @ ''.xml''
      | OleObjectBin l \<Rightarrow> ''word/embeddings/oleObject'' @ str_int l @ ''.bin''
      | VortexManifest \<Rightarrow> ''CTT_VORTEX_MANIFEST.txt'')"

datatype content = Text string | Binary "int list"

type_synonym zip_archive = "(entry_name \<times> content) list"

record document_metadata =
  dm_filename :: string
  creation_time :: string
  ctt_version :: string
  dm_alpha :: real
  dm_layers :: int
  dm_cascade_factor :: real
  ole_objects :: "ole_object list"
  total_energy :: "real option"
  efficiency :: "real option"
  completion_time :: "string option"

record environment =
  sha256_hexdigest :: "int list \<Rightarrow> string"
  time_time :: "nat \<Rightarrow> real"
  now_strftime :: "nat \<Rightarrow> string"
  now_isoformat :: "bool \<Rightarrow> string"
  content_types_text :: string
  relationships_text :: string
  document_rels_text :: "OLE_TemporalVortex \<Rightarrow> string"
  document_xml_text :: "OLE_TemporalVortex \<Rightarrow> string"
  vortex_xml_text :: "OLE_TemporalVortex \<Rightarrow> int \<Rightarrow> ole_object \<Rightarrow> string"
  vortex_manifest_text :: "OLE_TemporalVortex \<Rightarrow> document_metadata \<Rightarrow> string"
  zip_open :: "string \<Rightarrow> py_exception + zip_archive"
  zip_writestr :: "zip_archive \<Rightarrow> entry_name \<Rightarrow> content \<Rightarrow> py_exception + zip_archive"
  zip_close :: "zip_archive \<Rightarrow> py_exception + zip_archive"

definition create_temporal_ole_object ::
  "OLE_TemporalVortex \<Rightarrow> environment \<Rightarrow> nat \<Rightarrow> int \<Rightarrow> py_exception + ole_object" where
  "create_temporal_ole_object v env k layer =
     (let new_progid =
            progid_prefix v @ ''.Layer'' @ str_int layer @ ''.Alpha'' @
            str_int (py_int (alpha v * 1000000))
      in case calculate_ole_temporal_offset v (time_time env k) layer of
           Inl e \<Rightarrow> Inl e
         | Inr offset \<Rightarrow>
             (case generate_vortex_ole_header v layer of
                Inl e \<Rightarrow> Inl e
              | Inr header \<Rightarrow>
                  (case synth_loop v layer header (nat (object_size v layer)) of
                     Inl e \<Rightarrow> Inl e
                   | Inr ole_data \<Rightarrow>
                       Inr \<lparr> clsid = clsid_vortex v,
                             progid = new_progid,
                             obj_size = object_size v layer,
                             temporal_offset = offset,
                             energy_level = exp (- alpha v * real_of_int layer),
                             obj_layer = layer,
                             obj_alpha = alpha v,
                             timestamp = now_strftime env k,
                             obj_data = ole_data,
                             checksum = sha256_hexdigest env ole_data \<rparr>)))"

subsection \<open>generate\_vortex\_xml\<close>

definition generate_vortex_xml ::
  "OLE_TemporalVortex \<Rightarrow> environment \<Rightarrow> nat \<Rightarrow> int \<Rightarrow> py_exception + string" where
  "generate_vortex_xml v env k layer =
     (case create_temporal_ole_object v env k layer of
        Inl e \<Rightarrow> Inl e
      | Inr ole_object \<Rightarrow> Inr (vortex_xml_text env v layer ole_object))"

subsection \<open>build\_sovereign\_document\<close>

text \<open>Sequencing of steps that may raise: the first exception ends the block.\<close>

definition and_then :: "'e + 'a \<Rightarrow> ('a \<Rightarrow> 'e + 'b) \<Rightarrow> 'e + 'b" where
  "and_then r f = (case r of Inl e \<Rightarrow> Inl e | Inr x \<Rightarrow> f x)"

text \<open>
  Inside the \<open>with\<close> block an exception is kept together with the archive as it was
  when the exception was raised, because leaving the block closes that archive. A write
  that fails leaves the archive as it was before the write.
\<close>

definition raised_in :: "zip_archive \<Rightarrow> py_exception + 'a \<Rightarrow> py_exception \<times> zip_archive + 'a" where
  "raised_in docx r = (case r of Inl e \<Rightarrow> Inl (e, docx) | Inr x \<Rightarrow> Inr x)"

definition writestr ::
  "environment \<Rightarrow> zip_archive \<Rightarrow> entry_name \<Rightarrow> content \<Rightarrow>
   py_exception \<times> zip_archive + zip_archive" where
  "writestr env docx n c = raised_in docx (zip_writestr env docx n c)"

text \<open>
  One pass of \<open>for layer in range(self.layers)\<close> on the running total, the objects
  collected so far and the open archive. The object is created twice for each layer,
  once directly and once inside \<open>generate_vortex_xml\<close>; the binary entry is
  \<open>ole_metadata['data']\<close> of the first.
\<close>

definition layer_pass ::
  "OLE_TemporalVortex \<Rightarrow> environment \<Rightarrow> real \<times> ole_object list \<times> zip_archive \<Rightarrow> int \<Rightarrow>
   py_exception \<times> zip_archive + real \<times> ole_object list \<times> zip_archive" where
  "layer_pass v env st layer =
     (case st of (energy_sum, objects, docx) \<Rightarrow>
        let layer_energy = exp (- alpha v * real_of_int layer);
            energy_sum = energy_sum + layer_energy
        in and_then (raised_in docx (create_temporal_ole_object v env (2 * nat layer) layer))
             (\<lambda>ole_metadata.
           and_then (raised_in docx (generate_vortex_xml v env (2 * nat layer + 1) layer))
             (\<lambda>xml_content.
           and_then (writestr env docx (OleObjectXml layer) (Text xml_content)) (\<lambda>docx.
           and_then (writestr env docx (OleObjectBin layer) (Binary (obj_data ole_metadata)))
             (\<lambda>docx.
           Inr (energy_sum, objects @ [ole_metadata], docx))))))"

primrec layers_loop ::
  "OLE_TemporalVortex \<Rightarrow> environment \<Rightarrow> real \<times> ole_object list \<times> zip_archive \<Rightarrow> nat \<Rightarrow>
   py_exception \<times> zip_archive + real \<times> ole_object list \<times> zip_archive" where
  "layers_loop v env st 0 = Inr st"
| "layers_loop v env st (Suc n) =
     and_then (layers_loop v env st n) (\<lambda>st'. layer_pass v env st' (int n))"

text \<open>The body of the \<open>with\<close> block, on the archive just opened.\<close>

definition with_body ::
  "OLE_TemporalVortex \<Rightarrow> environment \<Rightarrow> zip_archive \<Rightarrow>
   py_exception \<times> zip_archive + document_metadata \<times> zip_archive" where
  "with_body v env docx =
     and_then (writestr env docx ContentTypes (Text (content_types_text env))) (\<lambda>docx.
     and_then (writestr env docx RootRels (Text (relationships_text env))) (\<lambda>docx.
     and_then (writestr env docx DocumentRels (Text (document_rels_text env v))) (\<lambda>docx.
     and_then (writestr env docx DocumentXml (Text (document_xml_text env v))) (\<lambda>docx.
     and_then (layers_loop v env (0, [], docx) (nat (layers v))) (\<lambda>(energy_sum, objects, docx).
       let document_metadata =
             \<lparr> dm_filename = filename v,
               creation_time = now_isoformat env False,
               ctt_version = ''2026-33-0007'',
               dm_alpha = alpha v,
               dm_layers = layers v,
               dm_cascade_factor = cascade_factor v,
               ole_objects = objects,
               total_energy = None,
               efficiency = None,
               completion_time = None \<rparr>
       in
     and_then (writestr env docx VortexManifest
                 (Text (vortex_manifest_text env v document_metadata))) (\<lambda>docx.
       let theoretical_energy = cascade_factor v;
           eff = (energy_sum / theoretical_energy) * 100;
           document_metadata =
             document_metadata
               \<lparr> total_energy := Some energy_sum,
                 efficiency := Some eff,
                 completion_time := Some (now_isoformat env True) \<rparr>
       in Inr (document_metadata, docx)))))))"

text \<open>
  The \<open>try\<close> block: \<open>with zipfile.ZipFile(...) as docx\<close> opens the archive, runs the
  body and closes the archive on the way out, whether the body returned or raised. An
  exception raised by the closing replaces the one that was on its way.
\<close>

definition try_block ::
  "OLE_TemporalVortex \<Rightarrow> environment \<Rightarrow> py_exception + document_metadata \<times> zip_archive" where
  "try_block v env =
     (case zip_open env (filename v) of
        Inl e \<Rightarrow> Inl e
      | Inr docx \<Rightarrow>
          (case with_body v env docx of
             Inl (e, docx) \<Rightarrow>
               (case zip_close env docx of Inl e' \<Rightarrow> Inl e' | Inr docx \<Rightarrow> Inl e)
           | Inr (document_metadata, docx) \<Rightarrow>
               (case zip_close env docx of
                  Inl e' \<Rightarrow> Inl e'
                | Inr docx \<Rightarrow> Inr (document_metadata, docx))))"

text \<open>
  What a call of \<open>build_sovereign_document\<close> gives: the returned dictionary, which is
  either the document metadata or \<open>{'error': str(e)}\<close> (kept here as the exception
  \<open>e\<close> itself), together with the archive written when the build completed.
  \<open>Inl\<close> would be an exception leaving the call.
\<close>

datatype build_result = Document document_metadata zip_archive | ErrorDict py_exception

definition build_sovereign_document ::
  "OLE_TemporalVortex \<Rightarrow> environment \<Rightarrow> py_exception + build_result" where
  "build_sovereign_document v env =
     (case try_block v env of
        Inl e \<Rightarrow> Inr (ErrorDict e)
      | Inr (document_metadata, docx) \<Rightarrow> Inr (Document document_metadata docx))"

text \<open>
  An archive in memory: opening gives the empty archive, every write appends its entry,
  closing changes nothing. The binary entries of an archive, in the order written.
\<close>

definition memory_zip :: "environment \<Rightarrow> bool" where
  "memory_zip env \<longleftrightarrow>
     (\<forall>name. zip_open env name = Inr []) \<and>
     (\<forall>docx n c. zip_writestr env docx n c = Inr (docx @ [(n, c)])) \<and>
     (\<forall>docx. zip_close env docx = Inr docx)"

fun binary_entries :: "zip_archive \<Rightarrow> (int \<times> int list) list" where
  "binary_entries [] = []"
| "binary_entries ((OleObjectBin l, Binary b) # es) = (l, b) # binary_entries es"
| "binary_entries (e # es) = binary_entries es"



text \<open>
  A concrete environment for evaluating the model: the archive in memory, a clock that
  counts the calls, empty text templates, and in place of the hash an injective encoding
  of the hashed bytes (one character for each byte), so that two digests are equal only
  when the hashed byte sequences are.
\<close>

definition memory_environment :: environment where
  "memory_environment =
     \<lparr> sha256_hexdigest = map char_of,
       time_time = (\<lambda>k. real k),
       now_strftime = (\<lambda>k. ''20260101000000''),
       now_isoformat = (\<lambda>b. ''2026-01-01T00:00:00''),
       content_types_text = [],
       relationships_text = [],
       document_rels_text = (\<lambda>v. []),
       document_xml_text = (\<lambda>v. []),
       vortex_xml_text = (\<lambda>v l obj. []),
       vortex_manifest_text = (\<lambda>v m. []),
       zip_open = (\<lambda>name. Inr []),
       zip_writestr = (\<lambda>docx n c. Inr (docx @ [(n, c)])),
       zip_close = (\<lambda>docx. Inr docx) \<rparr>"

section \<open>Properties\<close>

subsection \<open>Packing and the header\<close>

lemma py_int_floor: "0 \<le> x \<Longrightarrow> py_int x = \<lfloor>x\<rfloor>"
  by (simp add: py_int_def)

lemma le_value_bytes_I: "le_value (le_bytes_I n) = n"
proof -
  have a: "n div 65536 = n div 256 div 256" and b: "n div 16777216 = n div 256 div 256 div 256"
    by (simp_all add: zdiv_zmult2_eq)
  show ?thesis
    unfolding le_bytes_I_def a b by (simp add: algebra_simps)
qed

lemma le_value_bytes_H: "le_value (le_bytes_H n) = n"
  by (simp add: le_bytes_H_def)

lemma length_le_bytes_I: "length (le_bytes_I n) = 4"
  by (simp add: le_bytes_I_def)

lemma le_bytes_I_range:
  assumes "0 \<le> n" "n < 4294967296" "b \<in> set (le_bytes_I n)"
  shows "0 \<le> b \<and> b < 256"
proof -
  have "n div 16777216 < 256" using assms(2) by simp
  moreover have "0 \<le> n div 16777216" using assms(1) by simp
  ultimately show ?thesis using assms(3) by (auto simp: le_bytes_I_def)
qed

lemma total_sectors_range:
  assumes "0 \<le> alpha v" "0 \<le> layer"
  shows "0 \<le> total_sectors v layer \<and> total_sectors v layer \<le> 4096"
proof -
  have "exp (- alpha v * real_of_int layer) \<le> 1"
    using assms by simp
  then have "4096 * exp (- alpha v * real_of_int layer) \<le> 4096" by simp
  then have "\<lfloor>4096 * exp (- alpha v * real_of_int layer)\<rfloor> \<le> \<lfloor>4096::real\<rfloor>"
    by (rule floor_mono)
  then show ?thesis
    by (simp add: total_sectors_def py_int_def)
qed

lemma header_eval:
  assumes "0 \<le> layer" "layer < 4294967296"
    and "0 \<le> total_sectors v layer" "total_sectors v layer < 4294967296"
    and "0 \<le> py_int (alpha v * 1000000)" "py_int (alpha v * 1000000) < 4294967296"
  shows "generate_vortex_ole_header v layer =
    Inr (ole_signature @ ole_clsid_bytes @ [0x3E, 0, 3, 0, 0xFE, 0xFF, 9, 0] @
         le_bytes_I (total_sectors v layer) @
          [0,0,0,0, 0,0,0,0, 0,0x10,0,0, 0xFE,0xFF,0xFF,0xFF, 0xFF,0xFF,0xFF,0xFF, 0,0x10,0,0] @
          le_bytes_I (total_sectors v layer div 2) @
          le_bytes_I layer @
          le_bytes_I (py_int (alpha v * 1000000)))"
proof -
  have h: "0 \<le> total_sectors v layer div 2" "total_sectors v layer div 2 < 4294967296"
    using assms by auto
  have c: "le_bytes_I 0 = [0,0,0,0]" "le_bytes_I 0x1000 = [0,0x10,0,0]"
    "le_bytes_I 0xFFFFFFFE = [0xFE,0xFF,0xFF,0xFF]" "le_bytes_I 0xFFFFFFFF = [0xFF,0xFF,0xFF,0xFF]"
    "le_bytes_H 0x3E = [0x3E, 0]" "le_bytes_H 3 = [3, 0]" "le_bytes_H 0xFFFE = [0xFE, 0xFF]"
    "le_bytes_H 9 = [9, 0]"
    by (simp_all add: le_bytes_I_def le_bytes_H_def)
  show ?thesis
    using assms h
    by (simp add: generate_vortex_ole_header_def pack_H_def pack_I_def c)
qed

lemma header_length: "generate_vortex_ole_header v layer = Inr h \<Longrightarrow> length h = 72"
  by (auto simp: generate_vortex_ole_header_def pack_H_def pack_I_def ole_signature_def ole_clsid_bytes_def
       le_bytes_I_def le_bytes_H_def
      split: sum.splits if_splits)

lemma header_eval_nonneg:
  assumes "0 \<le> layer" "layer < 4294967296" "0 \<le> alpha v" "alpha v * 1000000 < 4294967296"
  shows "generate_vortex_ole_header v layer =
    Inr (ole_signature @ ole_clsid_bytes @ [0x3E, 0, 3, 0, 0xFE, 0xFF, 9, 0] @
         le_bytes_I (total_sectors v layer) @
          [0,0,0,0, 0,0,0,0, 0,0x10,0,0, 0xFE,0xFF,0xFF,0xFF, 0xFF,0xFF,0xFF,0xFF, 0,0x10,0,0] @
          le_bytes_I (total_sectors v layer div 2) @
          le_bytes_I layer @
          le_bytes_I (py_int (alpha v * 1000000)))"
proof -
  have a: "0 \<le> alpha v * 1000000" using assms(3) by simp
  then have "py_int (alpha v * 1000000) = \<lfloor>alpha v * 1000000\<rfloor>" by (rule py_int_floor)
  moreover have "\<lfloor>alpha v * 1000000\<rfloor> < 4294967296"
    using assms(4) by (simp add: floor_less_iff)
  moreover have "0 \<le> \<lfloor>alpha v * 1000000\<rfloor>" using a by simp
  ultimately have p: "0 \<le> py_int (alpha v * 1000000)" "py_int (alpha v * 1000000) < 4294967296"
    by simp_all
  have t: "0 \<le> total_sectors v layer" "total_sectors v layer < 4294967296"
    using total_sectors_range [OF assms(3) assms(1)] by simp_all
  show ?thesis
    by (rule header_eval [OF assms(1) assms(2) t p])
qed

lemma init_fields:
  "alpha (OLE_TemporalVortex_init name) = 302011 / 10000000"
  "layers (OLE_TemporalVortex_init name) = 33"
  "filename (OLE_TemporalVortex_init name) = name"
  "prime_windows (OLE_TemporalVortex_init name) =
     [10007, 10009, 10037, 10039, 10061, 10067, 10069, 10079]"
  by (simp_all add: OLE_TemporalVortex_init_def)

lemma header_Inr_ranges:
  assumes "generate_vortex_ole_header v layer = Inr h"
  shows "0 \<le> layer \<and> layer < 4294967296 \<and>
         0 \<le> total_sectors v layer \<and> total_sectors v layer < 4294967296 \<and>
         0 \<le> py_int (alpha v * 1000000) \<and> py_int (alpha v * 1000000) < 4294967296"
  using assms
  by (simp add: generate_vortex_ole_header_def pack_H_def pack_I_def
      split: sum.splits if_splits)

lemma header_Inl:
  assumes "generate_vortex_ole_header v layer = Inl e"
  shows "e = StructError"
  using assms
  by (simp add: generate_vortex_ole_header_def pack_H_def pack_I_def
      split: sum.splits if_splits)

lemma total_sectors_floor:
  "total_sectors v layer = \<lfloor>4096 * exp (- alpha v * real_of_int layer)\<rfloor>"
  "0 \<le> total_sectors v layer"
  by (simp_all add: total_sectors_def py_int_def)

lemma header_fields:
  assumes "0 \<le> layer" "layer < 4294967296" "total_sectors v layer < 4294967296"
    and "0 \<le> py_int (alpha v * 1000000)" "py_int (alpha v * 1000000) < 4294967296"
  shows "\<exists>h. generate_vortex_ole_header v layer = Inr h \<and> length h = 72 \<and>
           (\<forall>b \<in> set h. 0 \<le> b \<and> b < 256) \<and>
           take 8 h = ole_signature \<and> take 16 (drop 8 h) = ole_clsid_bytes \<and>
           map (header_field_H h) [0, 1, 2, 3] = [0x003E, 0x0003, 0xFFFE, 0x0009] \<and>
           header_field_I h 0 = \<lfloor>4096 * exp (- alpha v * real_of_int layer)\<rfloor> \<and>
           map (header_field_I h) [1, 2, 3, 4, 5, 6] =
             [0, 0, 0x1000, 0xFFFFFFFE, 0xFFFFFFFF, 0x1000] \<and>
           header_field_I h 7 = header_field_I h 0 div 2 \<and>
           header_field_I h 8 = layer \<and>
           header_field_I h 9 = py_int (alpha v * 1000000)"
proof -
  let ?ts = "total_sectors v layer"
  let ?am = "py_int (alpha v * 1000000)"
  define h where "h = ole_signature @ ole_clsid_bytes @ [0x3E, 0, 3, 0, 0xFE, 0xFF, 9, 0] @
         le_bytes_I ?ts @
          [0,0,0,0, 0,0,0,0, 0,0x10,0,0, 0xFE,0xFF,0xFF,0xFF, 0xFF,0xFF,0xFF,0xFF, 0,0x10,0,0] @
          le_bytes_I (?ts div 2) @ le_bytes_I layer @ le_bytes_I ?am"
  have eq: "generate_vortex_ole_header v layer = Inr h"
    unfolding h_def
    by (rule header_eval [OF assms(1,2) total_sectors_floor(2) assms(3,4,5)])
  have len: "length h = 72" by (rule header_length [OF eq])
  have ts: "0 \<le> ?ts" "?ts < 4294967296"
    using total_sectors_floor(2) assms(3) by simp_all
  have ts2: "0 \<le> ?ts div 2" "?ts div 2 < 4294967296" using ts by auto
  have am: "0 \<le> ?am" "?am < 4294967296"
    using assms(4,5) by simp_all
  have ts_eq: "?ts = \<lfloor>4096 * exp (- alpha v * real_of_int layer)\<rfloor>"
    by (simp add: total_sectors_def py_int_def)
  have bytes: "\<forall>b \<in> set h. 0 \<le> b \<and> b < 256"
    using le_bytes_I_range [OF ts] le_bytes_I_range [OF ts2]
      le_bytes_I_range [OF assms(1,2)] le_bytes_I_range [OF am]
    by (auto simp: h_def ole_signature_def ole_clsid_bytes_def)
  have sig: "take 8 h = ole_signature" "take 16 (drop 8 h) = ole_clsid_bytes"
    by (simp_all add: h_def ole_signature_def ole_clsid_bytes_def)
  have fH: "map (header_field_H h) [0, 1, 2, 3] = [0x003E, 0x0003, 0xFFFE, 0x0009]"
    by (simp add: header_field_H_def h_def ole_signature_def ole_clsid_bytes_def)
  have dr: "drop 32 h = le_bytes_I ?ts @
          [0,0,0,0, 0,0,0,0, 0,0x10,0,0, 0xFE,0xFF,0xFF,0xFF, 0xFF,0xFF,0xFF,0xFF, 0,0x10,0,0] @
          le_bytes_I (?ts div 2) @ le_bytes_I layer @ le_bytes_I ?am"
    by (simp add: h_def ole_signature_def ole_clsid_bytes_def)
  have f0: "header_field_I h 0 = ?ts"
    by (simp add: header_field_I_def dr length_le_bytes_I le_value_bytes_I)
  have dd: "drop 36 h = drop 4 (drop 32 h)" "drop 40 h = drop 8 (drop 32 h)"
    "drop 44 h = drop 12 (drop 32 h)" "drop 48 h = drop 16 (drop 32 h)"
    "drop 52 h = drop 20 (drop 32 h)" "drop 56 h = drop 24 (drop 32 h)"
    "drop 60 h = drop 28 (drop 32 h)" "drop 64 h = drop 32 (drop 32 h)"
    "drop 68 h = drop 36 (drop 32 h)"
    by simp_all
  have fmid: "map (header_field_I h) [1, 2, 3, 4, 5, 6] =
             [0, 0, 0x1000, 0xFFFFFFFE, 0xFFFFFFFF, 0x1000]"
    by (simp add: header_field_I_def dd dr length_le_bytes_I)
  have f7: "header_field_I h 7 = ?ts div 2"
    by (simp add: header_field_I_def dd dr length_le_bytes_I le_value_bytes_I)
  have f8: "header_field_I h 8 = layer"
    by (simp add: header_field_I_def dd dr length_le_bytes_I le_value_bytes_I)
  have f9: "header_field_I h 9 = ?am"
    by (simp add: header_field_I_def dd dr length_le_bytes_I le_value_bytes_I)
  show ?thesis
    using eq len bytes sig fH fmid f0 f7 f8 f9 ts_eq by auto
qed


text \<open>
  Claim C3, as amended. Whenever the header encoder returns, it returns 72 bytes
  (8 of signature, 16 of identifier, four 16-bit fields, ten 32-bit fields), every one
  in \<open>0..255\<close>; read back little-endian, the first 32-bit field is
  \<open>floor(4096 * exp(-alpha * layer))\<close>, the eighth is half of it (integer division),
  the ninth is the layer index and the tenth is \<open>int(alpha * 1e6)\<close>. It returns
  exactly when the layer index, the sector count and \<open>int(alpha * 1e6)\<close> fit an
  unsigned 32-bit field, and raises \<open>struct.error\<close> otherwise; it returns for every
  layer index in \<open>0 \<le> layer < 2^32\<close> when \<open>0 \<le> alpha\<close> and \<open>alpha * 1e6 < 2^32\<close>.
\<close>

theorem header_layout:
  "(case generate_vortex_ole_header v layer of
      Inl e \<Rightarrow> e = StructError
    | Inr h \<Rightarrow>
        length h = 72 \<and> (\<forall>b \<in> set h. 0 \<le> b \<and> b < 256) \<and>
        take 8 h = ole_signature \<and> take 16 (drop 8 h) = ole_clsid_bytes \<and>
        map (header_field_H h) [0, 1, 2, 3] = [0x003E, 0x0003, 0xFFFE, 0x0009] \<and>
        header_field_I h 0 = \<lfloor>4096 * exp (- alpha v * real_of_int layer)\<rfloor> \<and>
        map (header_field_I h) [1, 2, 3, 4, 5, 6] =
          [0, 0, 0x1000, 0xFFFFFFFE, 0xFFFFFFFF, 0x1000] \<and>
        header_field_I h 7 = header_field_I h 0 div 2 \<and>
        header_field_I h 8 = layer \<and>
        header_field_I h 9 = py_int (alpha v * 1000000)) \<and>
   ((\<exists>h. generate_vortex_ole_header v layer = Inr h) \<longleftrightarrow>
      0 \<le> layer \<and> layer < 4294967296 \<and>
      \<lfloor>4096 * exp (- alpha v * real_of_int layer)\<rfloor> < 4294967296 \<and>
      0 \<le> py_int (alpha v * 1000000) \<and> py_int (alpha v * 1000000) < 4294967296) \<and>
   (0 \<le> layer \<and> layer < 4294967296 \<and> 0 \<le> alpha v \<and> alpha v * 1000000 < 4294967296 \<longrightarrow>
      (\<exists>h. generate_vortex_ole_header v layer = Inr h \<and> length h = 72 \<and>
           header_field_I h 9 = \<lfloor>alpha v * 1000000\<rfloor>))"
proof -
  let ?L = "\<lambda>h. length h = 72 \<and> (\<forall>b \<in> set h. 0 \<le> b \<and> b < 256) \<and>
        take 8 h = ole_signature \<and> take 16 (drop 8 h) = ole_clsid_bytes \<and>
        map (header_field_H h) [0, 1, 2, 3] = [0x003E, 0x0003, 0xFFFE, 0x0009] \<and>
        header_field_I h 0 = \<lfloor>4096 * exp (- alpha v * real_of_int layer)\<rfloor> \<and>
        map (header_field_I h) [1, 2, 3, 4, 5, 6] =
          [0, 0, 0x1000, 0xFFFFFFFE, 0xFFFFFFFF, 0x1000] \<and>
        header_field_I h 7 = header_field_I h 0 div 2 \<and>
        header_field_I h 8 = layer \<and>
        header_field_I h 9 = py_int (alpha v * 1000000)"
  have 1: "(case generate_vortex_ole_header v layer of Inl e \<Rightarrow> e = StructError | Inr h \<Rightarrow> ?L h)"
  proof (cases "generate_vortex_ole_header v layer")
    case (Inl e)
    then show ?thesis using header_Inl [OF Inl] by simp
  next
    case (Inr h)
    from header_Inr_ranges [OF Inr]
    have r: "0 \<le> layer" "layer < 4294967296" "total_sectors v layer < 4294967296"
      "0 \<le> py_int (alpha v * 1000000)" "py_int (alpha v * 1000000) < 4294967296"
      by simp_all
    from header_fields [OF r] obtain h' where
      h': "generate_vortex_ole_header v layer = Inr h' \<and> ?L h'" ..
    then have "h' = h" using Inr by simp
    with h' have "?L h" by simp
    with Inr show ?thesis by simp
  qed
  have 2: "(\<exists>h. generate_vortex_ole_header v layer = Inr h) \<longleftrightarrow>
      0 \<le> layer \<and> layer < 4294967296 \<and>
      \<lfloor>4096 * exp (- alpha v * real_of_int layer)\<rfloor> < 4294967296 \<and>
      0 \<le> py_int (alpha v * 1000000) \<and> py_int (alpha v * 1000000) < 4294967296"
    (is "?A \<longleftrightarrow> ?B")
  proof
    assume ?A
    then obtain h where "generate_vortex_ole_header v layer = Inr h" ..
    from header_Inr_ranges [OF this] show ?B by (simp add: total_sectors_floor(1))
  next
    assume b: ?B
    then have "total_sectors v layer < 4294967296" by (simp add: total_sectors_floor(1))
    with b header_fields [of layer v] show ?A by blast
  qed
  have 3: "\<exists>h. generate_vortex_ole_header v layer = Inr h \<and> length h = 72 \<and>
           header_field_I h 9 = \<lfloor>alpha v * 1000000\<rfloor>"
    if a: "0 \<le> layer \<and> layer < 4294967296 \<and> 0 \<le> alpha v \<and> alpha v * 1000000 < 4294967296"
  proof -
    from a have am: "py_int (alpha v * 1000000) = \<lfloor>alpha v * 1000000\<rfloor>"
      by (simp add: py_int_def)
    from a have "0 \<le> \<lfloor>alpha v * 1000000\<rfloor>" "\<lfloor>alpha v * 1000000\<rfloor> < 4294967296"
      by (simp_all add: floor_less_iff)
    then have p: "0 \<le> py_int (alpha v * 1000000)" "py_int (alpha v * 1000000) < 4294967296"
      by (simp_all add: am)
    from a have l: "0 \<le> layer" "layer < 4294967296" by simp_all
    from a have t: "total_sectors v layer < 4294967296"
      using total_sectors_range [of v layer] by simp
    from header_fields [OF l t p] show ?thesis by (auto simp: am)
  qed
  from 1 2 3 show ?thesis by blast
qed

theorem header_layout_witness:
  "(0::int) \<le> 5 \<and> (5::int) < 4294967296 \<and>
   0 \<le> alpha (OLE_TemporalVortex_init ''SCTT_Sovereign_Manifest.docx'') \<and>
   alpha (OLE_TemporalVortex_init ''SCTT_Sovereign_Manifest.docx'') * 1000000 < 4294967296 \<and>
   (\<exists>h. generate_vortex_ole_header
           (OLE_TemporalVortex_init ''SCTT_Sovereign_Manifest.docx'') 5 = Inr h \<and>
        length h = 72 \<and> (\<forall>b \<in> set h. 0 \<le> b \<and> b < 256) \<and>
        header_field_I h 7 = header_field_I h 0 div 2 \<and>
        header_field_I h 8 = 5 \<and> header_field_I h 9 = 30201)"
proof -
  let ?v = "OLE_TemporalVortex_init ''SCTT_Sovereign_Manifest.docx''"
  have a: "(0::int) \<le> 5 \<and> (5::int) < 4294967296 \<and> 0 \<le> alpha ?v \<and>
      alpha ?v * 1000000 < 4294967296"
    by (simp add: init_fields)
  have f: "\<lfloor>alpha ?v * 1000000\<rfloor> = 30201"
    by (simp add: init_fields floor_eq_iff)
  from header_layout [of ?v 5] a obtain h where
    h: "generate_vortex_ole_header ?v 5 = Inr h" "header_field_I h 9 = \<lfloor>alpha ?v * 1000000\<rfloor>"
    by blast
  from header_layout [of ?v 5] h(1)
  have "length h = 72 \<and> (\<forall>b \<in> set h. 0 \<le> b \<and> b < 256) \<and>
        header_field_I h 7 = header_field_I h 0 div 2 \<and> header_field_I h 8 = 5"
    by simp
  with a h f show ?thesis by auto
qed

text \<open>
  Claim C3 as stated fails twice: the header of layer 0 of the default object has 72
  bytes, not 44; and for the layer index \<open>-1\<close> the encoder returns no header, the
  packing of the layer index raises \<open>struct.error\<close>.
\<close>

theorem header_length_counterexample:
  "(case generate_vortex_ole_header
           (OLE_TemporalVortex_init ''SCTT_Sovereign_Manifest.docx'') 0 of
      Inl e \<Rightarrow> False
    | Inr h \<Rightarrow> length h = 72 \<and> length h \<noteq> 44) \<and>
   generate_vortex_ole_header
      (OLE_TemporalVortex_init ''SCTT_Sovereign_Manifest.docx'') (- 1) = Inl StructError"
proof -
  let ?v = "OLE_TemporalVortex_init ''SCTT_Sovereign_Manifest.docx''"
  have "\<exists>h. generate_vortex_ole_header ?v 0 = Inr h"
    using header_eval_nonneg [of 0 ?v] by (simp add: init_fields)
  then obtain h where h: "generate_vortex_ole_header ?v 0 = Inr h" ..
  have 1: "(case generate_vortex_ole_header ?v 0 of
      Inl e \<Rightarrow> False | Inr h \<Rightarrow> length h = 72 \<and> length h \<noteq> 44)"
    using header_length [OF h] h by simp
  have "\<not> (\<exists>h. generate_vortex_ole_header ?v (- 1) = Inr h)"
    using header_Inr_ranges [of ?v "- 1"] by auto
  then obtain e where e: "generate_vortex_ole_header ?v (- 1) = Inl e"
    by (cases "generate_vortex_ole_header ?v (- 1)") auto
  from header_Inl [OF e] e have 2: "generate_vortex_ole_header ?v (- 1) = Inl StructError"
    by simp
  from 1 2 show ?thesis by blast
qed

subsection \<open>The byte loop\<close>

lemma synth_step_Inr:
  assumes "alpha v \<noteq> 0" "int (length d) \<ge> i"
  shows "synth_step v layer d i =
     Inr (d @ [(if 0 < i then (d ! nat (i - 1) XOR base_byte_of v layer i) AND 0xFF
                else base_byte_of v layer i) XOR pattern_of layer i])"
  using assms by (auto simp: synth_step_def Let_def)

lemma synth_step_cases:
  "synth_step v layer d i = Inr d' \<Longrightarrow>
     alpha v \<noteq> 0 \<and>
     d' = d @ [(if 0 < i then (d ! nat (i - 1) XOR base_byte_of v layer i) AND 0xFF
                else base_byte_of v layer i) XOR pattern_of layer i]"
  by (auto simp: synth_step_def Let_def split: if_splits)

lemma synth_loop_shape:
  "synth_loop v layer h n = Inr d \<Longrightarrow> length d = length h + n \<and> take (length h) d = h"
proof (induction n arbitrary: d)
  case 0
  then show ?case by simp
next
  case (Suc n)
  from Suc.prems obtain d' where d': "synth_loop v layer h n = Inr d'"
    and st: "synth_step v layer d' (int n) = Inr d"
    by (auto split: sum.splits)
  from synth_step_cases [OF st] obtain b where "d = d' @ [b]" by blast
  with Suc.IH [OF d'] show ?case by simp
qed

lemma synth_loop_ok:
  assumes "alpha v \<noteq> 0"
  shows "\<exists>d. synth_loop v layer h n = Inr d"
proof (induction n)
  case 0
  show ?case by simp
next
  case (Suc n)
  then obtain d where d: "synth_loop v layer h n = Inr d" ..
  have "int n \<le> int (length d)" using synth_loop_shape [OF d] by simp
  from synth_step_Inr [OF assms this] d show ?case by simp
qed

lemma synth_loop_alpha_zero:
  assumes "alpha v = 0" "0 < n"
  shows "synth_loop v layer h n = Inl ZeroDivisionError"
  using assms(2)
proof (induction n)
  case 0
  then show ?case by simp
next
  case (Suc n)
  show ?case
  proof (cases "synth_loop v layer h n")
    case (Inl e)
    with Suc have "n = 0 \<or> e = ZeroDivisionError" by auto
    with Inl show ?thesis by auto
  next
    case (Inr d)
    then show ?thesis using assms(1) by (simp add: synth_step_def)
  qed
qed

lemma synth_loop_prefix:
  assumes "synth_loop v layer h n = Inr d" "m \<le> n"
  shows "synth_loop v layer h m = Inr (take (length h + m) d)"
  using assms
proof (induction n arbitrary: d)
  case 0
  then show ?case by simp
next
  case (Suc n)
  from Suc.prems(1) obtain d' where d': "synth_loop v layer h n = Inr d'"
    and st: "synth_step v layer d' (int n) = Inr d"
    by (auto split: sum.splits)
  from synth_step_cases [OF st] obtain b where b: "d = d' @ [b]" by blast
  have len: "length d' = length h + n" using synth_loop_shape [OF d'] by simp
  show ?case
  proof (cases "m = Suc n")
    case True
    then show ?thesis using Suc.prems(1) b len by simp
  next
    case False
    then have "m \<le> n" using Suc.prems(2) by simp
    from Suc.IH [OF d' this] show ?thesis using b len \<open>m \<le> n\<close> by simp
  qed
qed

text \<open>The recurrence of the loop: the feedback byte is read at index \<open>p - 1\<close> of the whole buffer.\<close>

lemma synth_loop_nth:
  assumes "synth_loop v layer h n = Inr d" "p < n"
  shows "d ! (length h + p) =
     (if 0 < p then (d ! (p - 1) XOR base_byte_of v layer (int p)) AND 0xFF
      else base_byte_of v layer (int p)) XOR pattern_of layer (int p)"
proof -
  have sp: "synth_loop v layer h (Suc p) = Inr (take (length h + Suc p) d)"
    using synth_loop_prefix [OF assms(1), of "Suc p"] assms(2) by simp
  have p: "synth_loop v layer h p = Inr (take (length h + p) d)"
    using synth_loop_prefix [OF assms(1), of p] assms(2) by simp
  from sp p have st: "synth_step v layer (take (length h + p) d) (int p) = Inr (take (length h + Suc p) d)"
    by simp
  have len: "length d = length h + n" using synth_loop_shape [OF assms(1)] by simp
  from synth_step_cases [OF st]
  have eq: "take (length h + Suc p) d = take (length h + p) d @
     [(if 0 < int p then (take (length h + p) d ! nat (int p - 1) XOR base_byte_of v layer (int p)) AND 0xFF
                else base_byte_of v layer (int p)) XOR pattern_of layer (int p)]" by simp
  have "d ! (length h + p) = (take (length h + Suc p) d) ! (length h + p)" by simp
  also have "\<dots> = (if 0 < int p then (take (length h + p) d ! nat (int p - 1) XOR base_byte_of v layer (int p)) AND 0xFF
                else base_byte_of v layer (int p)) XOR pattern_of layer (int p)"
    unfolding eq using len assms(2) by (simp add: nth_append)
  also have "\<dots> = (if 0 < p then (d ! (p - 1) XOR base_byte_of v layer (int p)) AND 0xFF
      else base_byte_of v layer (int p)) XOR pattern_of layer (int p)"
    by (cases p) (simp_all add: nat_diff_distrib')
  finally show ?thesis .
qed

subsection \<open>The layer object\<close>

lemma offset_clock:
  "map_sum id (\<lambda>r. ()) (calculate_ole_temporal_offset v now layer) =
   map_sum id (\<lambda>r. ()) (calculate_ole_temporal_offset v now' layer)"
  by (simp add: calculate_ole_temporal_offset_def Let_def)

lemma offset_init_ok:
  "\<exists>r. calculate_ole_temporal_offset (OLE_TemporalVortex_init name) now layer = Inr r"
proof -
  let ?ps = "[10007, 10009, 10037, 10039, 10061, 10067, 10069, 10079] :: int list"
  have "0 \<le> layer mod 8" "layer mod 8 < 8" by simp_all
  then have "nat (layer mod 8) < length ?ps" by simp
  then have "?ps ! nat (layer mod 8) \<in> set ?ps" by (rule nth_mem)
  then have "?ps ! nat (layer mod 8) \<noteq> 0" by auto
  then show ?thesis
    by (simp add: calculate_ole_temporal_offset_def init_fields Let_def)
qed

lemma create_cases:
  assumes "create_temporal_ole_object v env k layer = Inr obj"
  shows "\<exists>off h. calculate_ole_temporal_offset v (time_time env k) layer = Inr off \<and>
           generate_vortex_ole_header v layer = Inr h \<and>
           synth_loop v layer h (nat (object_size v layer)) = Inr (obj_data obj) \<and>
           obj_size obj = object_size v layer \<and>
           checksum obj = sha256_hexdigest env (obj_data obj) \<and>
           energy_level obj = exp (- alpha v * real_of_int layer)"
  using assms
  by (auto simp: create_temporal_ole_object_def Let_def split: sum.splits)

lemma create_ok:
  assumes "calculate_ole_temporal_offset v (time_time env k) layer = Inr off"
    "generate_vortex_ole_header v layer = Inr h"
    "synth_loop v layer h (nat (object_size v layer)) = Inr d"
  shows "\<exists>obj. create_temporal_ole_object v env k layer = Inr obj \<and> obj_data obj = d"
  using assms by (simp add: create_temporal_ole_object_def Let_def)

lemma create_init_ok:
  assumes "0 \<le> layer" "layer < 4294967296"
  shows "\<exists>obj. create_temporal_ole_object (OLE_TemporalVortex_init name) env k layer = Inr obj"
proof -
  let ?v = "OLE_TemporalVortex_init name"
  obtain off where off: "calculate_ole_temporal_offset ?v (time_time env k) layer = Inr off"
    using offset_init_ok by blast
  have "\<exists>h. generate_vortex_ole_header ?v layer = Inr h"
    using header_eval_nonneg [OF assms, of ?v] by (simp add: init_fields)
  then obtain h where h: "generate_vortex_ole_header ?v layer = Inr h" ..
  have "alpha ?v \<noteq> 0" by (simp add: init_fields)
  from synth_loop_ok [OF this] obtain d
    where d: "synth_loop ?v layer h (nat (object_size ?v layer)) = Inr d" by blast
  from create_ok [OF off h d] show ?thesis by blast
qed

lemma create_data_shape:
  assumes "create_temporal_ole_object v env k layer = Inr obj"
  shows "\<exists>h. generate_vortex_ole_header v layer = Inr h \<and> length h = 72 \<and>
           take 72 (obj_data obj) = h \<and>
           length (obj_data obj) = 72 + nat (obj_size obj)"
proof -
  from create_cases [OF assms] obtain h where h: "generate_vortex_ole_header v layer = Inr h"
    and d: "synth_loop v layer h (nat (object_size v layer)) = Inr (obj_data obj)"
    and s: "obj_size obj = object_size v layer" by blast
  from header_length [OF h] synth_loop_shape [OF d] h s show ?thesis by simp
qed

lemma object_size_init_0: "object_size (OLE_TemporalVortex_init name) 0 = 1024"
  by (simp add: object_size_def py_int_def)

lemma base_byte_init_0_0: "base_byte_of (OLE_TemporalVortex_init name) 0 0 = 255"
  by (simp add: base_byte_of_def py_int_def)

lemma base_byte_init_0_1: "base_byte_of (OLE_TemporalVortex_init name) 0 1 = 254"
proof -
  let ?x = "302011 / 1000000000 :: real"
  have lo: "1 - ?x \<le> exp (- ?x)" using exp_ge_add_one_self [of "- ?x"] by simp
  have hi: "exp (- ?x) < 1" by simp
  have "254 \<le> 255 * exp (- ?x)" using lo by simp
  moreover have "255 * exp (- ?x) < 255" using hi by simp
  ultimately have "\<lfloor>255 * exp (- ?x)\<rfloor> = 254" by (simp add: floor_eq_iff)
  moreover have "0 \<le> 255 * exp (- ?x)" by simp
  ultimately have "py_int (255 * exp (- ?x)) = 254" by (simp add: py_int_def)
  then show ?thesis by (simp add: base_byte_of_def init_fields)
qed

lemma header_init_0_hd:
  "generate_vortex_ole_header (OLE_TemporalVortex_init name) 0 = Inr h \<Longrightarrow> h ! 0 = 0xD0"
  using header_eval_nonneg [of 0 "OLE_TemporalVortex_init name"]
  by (auto simp: init_fields ole_signature_def)

text \<open>
  Claim C10. For the default object (\<open>alpha = 0.0302011\<close>, base size 1024) and layer 0
  the byte count is 1024, the energy is 1, and the first byte the loop appends (index 72
  of the buffer, right after the header) is \<open>floor(255 * 1.0) XOR 0xAA = 0x55\<close>.
\<close>

theorem first_synthesized_byte:
  "object_size (OLE_TemporalVortex_init name) 0 = 1024 \<and>
   (\<exists>obj. create_temporal_ole_object (OLE_TemporalVortex_init name) env k 0 = Inr obj \<and>
      obj_size obj = 1024 \<and> energy_level obj = 1 \<and>
      py_int (255 * energy_level obj) = 255 \<and>
      obj_data obj ! 72 = 255 XOR 0xAA \<and> obj_data obj ! 72 = 0x55)"
proof -
  let ?v = "OLE_TemporalVortex_init name"
  obtain obj where obj: "create_temporal_ole_object ?v env k 0 = Inr obj"
    using create_init_ok [of 0 name env k] by auto
  from create_cases [OF obj] obtain h where h: "generate_vortex_ole_header ?v 0 = Inr h"
    and d: "synth_loop ?v 0 h (nat (object_size ?v 0)) = Inr (obj_data obj)"
    and s: "obj_size obj = object_size ?v 0"
    and e: "energy_level obj = exp (- alpha ?v * real_of_int 0)" by blast
  have len: "length h = 72" by (rule header_length [OF h])
  have "obj_data obj ! (length h + 0) = base_byte_of ?v 0 (int 0) XOR pattern_of 0 (int 0)"
    using synth_loop_nth [OF d, of 0] by (simp add: object_size_init_0)
  then have b: "obj_data obj ! 72 = 255 XOR 0xAA"
    by (simp add: len base_byte_init_0_0 pattern_of_def)
  have e1: "energy_level obj = 1" using e by simp
  show ?thesis
    using obj s e1 b by (simp add: object_size_init_0 py_int_def)
qed

text \<open>
  Claim C1 fails on the code. At layer 0 of the default object the byte at position 1
  of the data section (index 73 of the buffer) is the decayed value 254 combined with
  \<open>ole_data[0]\<close>, the first byte \<open>0xD0\<close> of the header, which gives \<open>0x7B\<close>;
  combined with the byte synthesized just before it (\<open>0x55\<close> at index 72), as the
  claim says, it would be \<open>0xFE\<close>.
\<close>

theorem feedback_reads_header_byte:
  "\<exists>obj. create_temporal_ole_object (OLE_TemporalVortex_init name) env k 0 = Inr obj \<and>
      obj_data obj ! 0 = 0xD0 \<and> obj_data obj ! 72 = 0x55 \<and>
      obj_data obj ! 73 =
        ((obj_data obj ! 0 XOR base_byte_of (OLE_TemporalVortex_init name) 0 1) AND 0xFF)
          XOR pattern_of 0 1 \<and>
      obj_data obj ! 73 = 0x7B \<and>
      ((obj_data obj ! 72 XOR base_byte_of (OLE_TemporalVortex_init name) 0 1) AND 0xFF)
          XOR pattern_of 0 1 = 0xFE"
proof -
  let ?v = "OLE_TemporalVortex_init name"
  obtain obj where obj: "create_temporal_ole_object ?v env k 0 = Inr obj"
    using create_init_ok [of 0 name env k] by auto
  from create_cases [OF obj] obtain h where h: "generate_vortex_ole_header ?v 0 = Inr h"
    and d: "synth_loop ?v 0 h (nat (object_size ?v 0)) = Inr (obj_data obj)" by blast
  have len: "length h = 72" by (rule header_length [OF h])
  have "take (length h) (obj_data obj) = h" using synth_loop_shape [OF d] by simp
  then have "obj_data obj ! 0 = h ! 0"
    using len by (metis nth_take zero_less_numeral)
  then have b0: "obj_data obj ! 0 = 0xD0" using header_init_0_hd [OF h] by simp
  have "obj_data obj ! (length h + 0) = base_byte_of ?v 0 (int 0) XOR pattern_of 0 (int 0)"
    using synth_loop_nth [OF d, of 0] by (simp add: object_size_init_0)
  then have b72: "obj_data obj ! 72 = 0x55"
    by (simp add: len base_byte_init_0_0 pattern_of_def)
  have "obj_data obj ! (length h + 1) =
      ((obj_data obj ! (1 - 1) XOR base_byte_of ?v 0 (int 1)) AND 0xFF) XOR pattern_of 0 (int 1)"
    using synth_loop_nth [OF d, of 1] by (simp add: object_size_init_0)
  then have b73: "obj_data obj ! 73 =
      ((obj_data obj ! 0 XOR base_byte_of ?v 0 1) AND 0xFF) XOR pattern_of 0 1"
    by (simp add: len)
  have v73: "obj_data obj ! 73 = 0x7B"
    unfolding b73 b0 by (simp add: base_byte_init_0_1 pattern_of_def)
  have spec: "((obj_data obj ! 72 XOR base_byte_of ?v 0 1) AND 0xFF) XOR pattern_of 0 1 = 0xFE"
    unfolding b72 by (simp add: base_byte_init_0_1 pattern_of_def)
  show ?thesis using obj b0 b72 b73 v73 spec by blast
qed

lemma create_clock_fields:
  assumes "create_temporal_ole_object v env k layer = Inr obj"
  shows "timestamp obj = now_strftime env k \<and>
         calculate_ole_temporal_offset v (time_time env k) layer = Inr (temporal_offset obj)"
  using assms
  by (auto simp: create_temporal_ole_object_def Let_def split: sum.splits)

text \<open>
  Claim C8, as amended. Two creations of a layer object under different clock readings
  agree on everything but the two fields \<open>temporal_offset\<close> and \<open>timestamp\<close>: the
  bytes (header and data section, held together in \<open>obj_data\<close>), the digest, the size,
  the identifiers, the energy, the layer and \<open>alpha\<close> are the same, and so is the
  exception when the creation fails. The header encoder takes no clock reading at all.
\<close>

theorem bytes_independent_of_clock:
  "map_sum id (\<lambda>obj. obj\<lparr>temporal_offset := 0, timestamp := []\<rparr>)
     (create_temporal_ole_object v
        (env\<lparr>time_time := t, now_strftime := s, now_isoformat := u\<rparr>) k' layer) =
   map_sum id (\<lambda>obj. obj\<lparr>temporal_offset := 0, timestamp := []\<rparr>)
     (create_temporal_ole_object v env k layer)"
proof -
  have "map_sum id (\<lambda>r. ()) (calculate_ole_temporal_offset v (t k') layer) =
        map_sum id (\<lambda>r. ()) (calculate_ole_temporal_offset v (time_time env k) layer)"
    by (rule offset_clock)
  then show ?thesis
    by (cases "calculate_ole_temporal_offset v (t k') layer";
        cases "calculate_ole_temporal_offset v (time_time env k) layer")
       (auto simp: create_temporal_ole_object_def Let_def split: sum.splits)
qed

text \<open>
  Claim C8 as stated fails: the clock feeds a second field. Two creations of layer 0 of
  the default object that differ only in what \<open>datetime.now()\<close> reads have the same
  \<open>temporal_offset\<close> and the same bytes, and different \<open>timestamp\<close> fields.
\<close>

theorem clock_feeds_timestamp_counterexample:
  "(case (create_temporal_ole_object
            (OLE_TemporalVortex_init ''SCTT_Sovereign_Manifest.docx'') memory_environment 0 0,
          create_temporal_ole_object
            (OLE_TemporalVortex_init ''SCTT_Sovereign_Manifest.docx'')
            (memory_environment\<lparr>now_strftime := \<lambda>k. ''20270101000000''\<rparr>) 0 0) of
      (Inr a, Inr b) \<Rightarrow>
        timestamp a \<noteq> timestamp b \<and> temporal_offset a = temporal_offset b \<and>
        obj_data a = obj_data b
    | _ \<Rightarrow> False)"
proof -
  let ?v = "OLE_TemporalVortex_init ''SCTT_Sovereign_Manifest.docx''"
  let ?env = "memory_environment\<lparr>now_strftime := \<lambda>k. ''20270101000000''\<rparr>"
  obtain a where a: "create_temporal_ole_object ?v memory_environment 0 0 = Inr a"
    using create_init_ok [of 0 "''SCTT_Sovereign_Manifest.docx''" memory_environment 0] by auto
  obtain b where b: "create_temporal_ole_object ?v ?env 0 0 = Inr b"
    using create_init_ok [of 0 "''SCTT_Sovereign_Manifest.docx''" ?env 0] by auto
  from create_clock_fields [OF a] create_clock_fields [OF b]
  have ts: "timestamp a \<noteq> timestamp b" and off: "temporal_offset a = temporal_offset b"
    by (simp_all add: memory_environment_def)
  from create_cases [OF a] create_cases [OF b]
  have "obj_data a = obj_data b" by auto
  with a b ts off show ?thesis by simp
qed

text \<open>
  Claim C4, as amended. The digest stored in a layer object is the hash of the whole
  buffer, the 72 header bytes followed by the synthesized bytes; when the byte count is
  zero it is the hash of the header.
\<close>

theorem digest_covers_header:
  assumes "create_temporal_ole_object v env k layer = Inr obj"
  shows "\<exists>h. generate_vortex_ole_header v layer = Inr h \<and> length h = 72 \<and>
           take 72 (obj_data obj) = h \<and>
           length (obj_data obj) = 72 + nat (obj_size obj) \<and>
           checksum obj = sha256_hexdigest env (obj_data obj) \<and>
           (obj_size obj \<le> 0 \<longrightarrow> checksum obj = sha256_hexdigest env h)"
proof -
  from create_data_shape [OF assms] obtain h where h: "generate_vortex_ole_header v layer = Inr h"
    "length h = 72" "take 72 (obj_data obj) = h" "length (obj_data obj) = 72 + nat (obj_size obj)"
    by blast
  from create_cases [OF assms] have c: "checksum obj = sha256_hexdigest env (obj_data obj)" by blast
  have "obj_size obj \<le> 0 \<longrightarrow> obj_data obj = h" using h by auto
  with h c show ?thesis by auto
qed

theorem digest_covers_header_witness:
  "\<exists>obj. create_temporal_ole_object
            (OLE_TemporalVortex_init ''SCTT_Sovereign_Manifest.docx'') memory_environment 0 0 = Inr obj \<and>
     (\<exists>h. generate_vortex_ole_header (OLE_TemporalVortex_init ''SCTT_Sovereign_Manifest.docx'') 0 = Inr h \<and>
        length h = 72 \<and> take 72 (obj_data obj) = h \<and>
        length (obj_data obj) = 72 + nat (obj_size obj) \<and>
        checksum obj = sha256_hexdigest memory_environment (obj_data obj))"
proof -
  let ?v = "OLE_TemporalVortex_init ''SCTT_Sovereign_Manifest.docx''"
  obtain obj where obj: "create_temporal_ole_object ?v memory_environment 0 0 = Inr obj"
    using create_init_ok [of 0 "''SCTT_Sovereign_Manifest.docx''" memory_environment 0] by auto
  from digest_covers_header [OF obj] obj show ?thesis by blast
qed

text \<open>
  Claim C4 as stated fails: for layer 0 of the default object, with a digest that is
  injective on byte sequences, the stored digest is not the digest of the synthesized
  bytes alone (the buffer without its first 72 bytes).
\<close>

theorem digest_payload_only_counterexample:
  "(case create_temporal_ole_object
           (OLE_TemporalVortex_init ''SCTT_Sovereign_Manifest.docx'') memory_environment 0 0 of
      Inl e \<Rightarrow> False
    | Inr obj \<Rightarrow>
        checksum obj \<noteq> sha256_hexdigest memory_environment (drop 72 (obj_data obj)))"
proof -
  let ?v = "OLE_TemporalVortex_init ''SCTT_Sovereign_Manifest.docx''"
  obtain obj where obj: "create_temporal_ole_object ?v memory_environment 0 0 = Inr obj"
    using create_init_ok [of 0 "''SCTT_Sovereign_Manifest.docx''" memory_environment 0] by auto
  from create_cases [OF obj]
  have c: "checksum obj = sha256_hexdigest memory_environment (obj_data obj)" by blast
  from create_data_shape [OF obj]
  have l: "length (obj_data obj) = 72 + nat (obj_size obj)" by blast
  have "length (checksum obj) = length (obj_data obj)"
    by (simp add: c memory_environment_def)
  moreover have "length (sha256_hexdigest memory_environment (drop 72 (obj_data obj))) =
      length (obj_data obj) - 72"
    by (simp add: memory_environment_def)
  ultimately have "checksum obj \<noteq> sha256_hexdigest memory_environment (drop 72 (obj_data obj))"
    using l by auto
  with obj show ?thesis by simp
qed

subsection \<open>The byte count\<close>

lemma exp_layer5_bounds:
  "880 \<le> 1024 * exp (- (1510055 / 10000000 :: real)) \<and>
   1024 * exp (- (1510055 / 10000000 :: real)) < 881"
proof -
  let ?x = "1510055 / 10000000 :: real"
  obtain t where t: "\<bar>t\<bar> \<le> \<bar>- ?x\<bar>"
    and e: "exp (- ?x) = (\<Sum>m<4. (- ?x) ^ m / fact m) + exp t / fact 4 * (- ?x) ^ 4"
    using Maclaurin_exp_le [of "- ?x" 4] by blast
  have s: "(\<Sum>m<4. (- ?x) ^ m / fact m) = 1 - ?x + ?x\<^sup>2 / 2 - ?x ^ 3 / 6"
    by (simp add: eval_nat_numeral)
  have "t \<le> 1" using t by simp
  then have "exp t \<le> exp 1" by simp
  then have et: "exp t \<le> 3" using exp_le by linarith
  have et0: "0 < exp t" by simp
  have r: "exp t / fact 4 * (- ?x) ^ 4 = exp t * (?x ^ 4 / 24)"
    by (simp add: eval_nat_numeral)
  have rlo: "0 \<le> exp t * (?x ^ 4 / 24)" using et0 by simp
  have "exp t * (?x ^ 4 / 24) \<le> 3 * (?x ^ 4 / 24)"
    using et by (intro mult_right_mono) simp_all
  then have rhi: "exp t * (?x ^ 4 / 24) \<le> ?x ^ 4 / 8" by simp
  define S where "S = 1 - ?x + ?x\<^sup>2 / 2 - ?x ^ 3 / 6"
  define Q where "Q = ?x ^ 4 / 8"
  define R where "R = exp t * (?x ^ 4 / 24)"
  have lo: "880 \<le> 1024 * S" by (simp add: S_def eval_nat_numeral)
  have hi: "1024 * S + 1024 * Q < 881" by (simp add: S_def Q_def eval_nat_numeral)
  have R: "0 \<le> R" "R \<le> Q" using rlo rhi by (simp_all add: R_def Q_def)
  have "exp (- ?x) = S + R"
    using e s r by (simp add: S_def R_def)
  with R lo hi show ?thesis by linarith
qed

lemma object_size_init_5: "object_size (OLE_TemporalVortex_init name) 5 = 880"
proof -
  have "\<lfloor>1024 * exp (- (1510055 / 10000000 :: real))\<rfloor> = 880"
    using exp_layer5_bounds by (simp add: floor_eq_iff)
  then show ?thesis by (simp add: object_size_def py_int_def init_fields)
qed

text \<open>
  Claim C9. The byte count of layer \<open>i\<close> is \<open>floor(1024 * exp(-alpha * i))\<close>, with
  1024 the base size of the code; it is never negative, and for \<open>alpha \<ge> 0\<close> it does
  not increase with \<open>i\<close>. For the default object (\<open>alpha = 0.0302011\<close>) the byte count of
  layer 5 is 880.
\<close>

theorem byte_count_law:
  "object_size v i = \<lfloor>1024 * exp (- alpha v * real_of_int i)\<rfloor> \<and>
   0 \<le> object_size v i \<and>
   (0 \<le> alpha v \<longrightarrow> i \<le> j \<longrightarrow> object_size v j \<le> object_size v i) \<and>
   object_size (OLE_TemporalVortex_init name) 5 = 880"
proof -
  have eq: "\<And>l. object_size v l = \<lfloor>1024 * exp (- alpha v * real_of_int l)\<rfloor>"
    by (simp add: object_size_def py_int_def)
  have nonneg: "0 \<le> object_size v i" by (simp add: eq)
  have mono: "object_size v j \<le> object_size v i" if a: "0 \<le> alpha v" and ij: "i \<le> j"
  proof -
    have "alpha v * real_of_int i \<le> alpha v * real_of_int j"
      using a ij by (intro mult_left_mono) simp_all
    then have "exp (- alpha v * real_of_int j) \<le> exp (- alpha v * real_of_int i)" by simp
    then have "1024 * exp (- alpha v * real_of_int j) \<le> 1024 * exp (- alpha v * real_of_int i)"
      by simp
    then show ?thesis unfolding eq by (rule floor_mono)
  qed
  show ?thesis using eq [of i] nonneg mono object_size_init_5 by blast
qed

theorem byte_count_law_witness:
  "0 \<le> alpha (OLE_TemporalVortex_init ''SCTT_Sovereign_Manifest.docx'') \<and> (0::int) \<le> 5 \<and>
   object_size (OLE_TemporalVortex_init ''SCTT_Sovereign_Manifest.docx'') 5 \<le>
     object_size (OLE_TemporalVortex_init ''SCTT_Sovereign_Manifest.docx'') 0 \<and>
   object_size (OLE_TemporalVortex_init ''SCTT_Sovereign_Manifest.docx'') 5 = 880 \<and>
   object_size (OLE_TemporalVortex_init ''SCTT_Sovereign_Manifest.docx'') 0 = 1024"
proof -
  let ?v = "OLE_TemporalVortex_init ''SCTT_Sovereign_Manifest.docx''"
  have a: "0 \<le> alpha ?v" by (simp add: init_fields)
  have b: "(0::int) \<le> 5" by simp
  from byte_count_law [of ?v 0 5 "''SCTT_Sovereign_Manifest.docx''"] a b
  show ?thesis by (simp add: object_size_init_0)
qed

subsection \<open>The build and the archive\<close>

lemma and_then_simps:
  "and_then (Inl e) f = Inl e" "and_then (Inr x) f = f x"
  by (simp_all add: and_then_def)

lemma and_then_Inr:
  "and_then r f = Inr y \<Longrightarrow> \<exists>x. r = Inr x \<and> f x = Inr y"
  by (cases r) (simp_all add: and_then_def)

lemma raised_in_simps:
  "raised_in docx (Inl e) = Inl (e, docx)" "raised_in docx (Inr x) = Inr x"
  by (simp_all add: raised_in_def)

lemma raised_in_Inr: "raised_in docx r = Inr x \<Longrightarrow> r = Inr x"
  by (cases r) (simp_all add: raised_in_def)

lemma writestr_memory:
  "memory_zip env \<Longrightarrow> writestr env docx n c = Inr (docx @ [(n, c)])"
  by (simp add: writestr_def memory_zip_def raised_in_simps)

lemma binary_entries_append:
  "binary_entries (a @ b) = binary_entries a @ binary_entries b"
  by (induction a rule: binary_entries.induct) simp_all

lemma layer_pass_memory:
  assumes "memory_zip env" "layer_pass v env (e, os, a) l = Inr (e', os', a')"
  shows "\<exists>obj. create_temporal_ole_object v env (2 * nat l) l = Inr obj \<and>
           os' = os @ [obj] \<and>
           binary_entries a' = binary_entries a @ [(l, obj_data obj)]"
proof -
  have w: "\<And>docx n c. writestr env docx n c = Inr (docx @ [(n, c)])"
    using assms(1) by (simp add: writestr_memory)
  from assms(2) obtain obj x where
    obj: "create_temporal_ole_object v env (2 * nat l) l = Inr obj"
    and r: "os' = os @ [obj]"
      "a' = (a @ [(OleObjectXml l, Text x)]) @ [(OleObjectBin l, Binary (obj_data obj))]"
    by (auto simp: layer_pass_def Let_def w dest!: and_then_Inr raised_in_Inr)
  from r(2) have "binary_entries a' = binary_entries a @ [(l, obj_data obj)]"
    by (simp add: binary_entries_append)
  with obj r(1) show ?thesis by blast
qed

lemma layers_loop_memory:
  assumes "memory_zip env"
  shows "layers_loop v env (e0, os0, a0) n = Inr (e, os, a) \<Longrightarrow>
     \<exists>objs. os = os0 @ objs \<and> length objs = n \<and>
        binary_entries a =
          binary_entries a0 @ map (\<lambda>i. (int i, obj_data (objs ! i))) [0..<n] \<and>
        (\<forall>i<n. \<exists>k. create_temporal_ole_object v env k (int i) = Inr (objs ! i))"
proof (induction n arbitrary: e os a)
  case 0
  then show ?case by simp
next
  case (Suc n)
  from Suc.prems obtain st where st: "layers_loop v env (e0, os0, a0) n = Inr st"
    and p: "layer_pass v env st (int n) = Inr (e, os, a)"
    by (auto dest!: and_then_Inr)
  obtain e1 os1 a1 where st1: "st = (e1, os1, a1)" by (cases st)
  from Suc.IH [OF st [unfolded st1]] obtain objs where
    objs: "os1 = os0 @ objs" "length objs = n"
      "binary_entries a1 =
          binary_entries a0 @ map (\<lambda>i. (int i, obj_data (objs ! i))) [0..<n]"
      "\<forall>i<n. \<exists>k. create_temporal_ole_object v env k (int i) = Inr (objs ! i)"
    by blast
  from layer_pass_memory [OF assms p [unfolded st1]] obtain obj where
    obj: "create_temporal_ole_object v env (2 * nat (int n)) (int n) = Inr obj"
      "os = os1 @ [obj]"
      "binary_entries a = binary_entries a1 @ [(int n, obj_data obj)]"
    by blast
  let ?objs = "objs @ [obj]"
  have 1: "os = os0 @ ?objs" using objs(1) obj(2) by simp
  have 2: "length ?objs = Suc n" using objs(2) by simp
  have m: "map (\<lambda>i. (int i, obj_data (?objs ! i))) [0..<n] =
           map (\<lambda>i. (int i, obj_data (objs ! i))) [0..<n]"
    using objs(2) by (simp add: nth_append)
  have 3: "binary_entries a =
      binary_entries a0 @ map (\<lambda>i. (int i, obj_data (?objs ! i))) [0..<Suc n]"
  proof -
    have l: "?objs ! n = obj" using objs(2) by (simp add: nth_append)
    show ?thesis
      unfolding upt_Suc_append [OF le0] map_append m
      using obj(3) objs(3) l by simp
  qed
  have 4: "\<forall>i<Suc n. \<exists>k. create_temporal_ole_object v env k (int i) = Inr (?objs ! i)"
  proof (intro allI impI)
    fix i assume "i < Suc n"
    show "\<exists>k. create_temporal_ole_object v env k (int i) = Inr (?objs ! i)"
    proof (cases "i = n")
      case True
      then show ?thesis using obj(1) objs(2) by (auto simp: nth_append)
    next
      case False
      with \<open>i < Suc n\<close> have "i < n" by simp
      with objs(4) objs(2) show ?thesis by (simp add: nth_append)
    qed
  qed
  from 1 2 3 4 show ?case by blast
qed

lemma try_block_memory:
  assumes "memory_zip env" "try_block v env = Inr (md, docx)"
  shows "\<exists>e os a a0. binary_entries a0 = [] \<and>
          layers_loop v env (0, [], a0) (nat (layers v)) = Inr (e, os, a) \<and>
          ole_objects md = os \<and> binary_entries docx = binary_entries a"
proof -
  have w: "\<And>docx n c. writestr env docx n c = Inr (docx @ [(n, c)])"
    using assms(1) by (simp add: writestr_memory)
  have o: "\<And>name. zip_open env name = Inr []"
    and c: "\<And>docx. zip_close env docx = Inr docx"
    using assms(1) by (simp_all add: memory_zip_def)
  let ?a0 = "[(ContentTypes, Text (content_types_text env)),
              (RootRels, Text (relationships_text env)),
              (DocumentRels, Text (document_rels_text env v)),
              (DocumentXml, Text (document_xml_text env v))]"
  have a0: "binary_entries ?a0 = []" by simp
  from assms(2) have wb: "with_body v env [] = Inr (md, docx)"
    by (auto simp: try_block_def o c split: sum.splits)
  then obtain e os a where
    "layers_loop v env (0, [], ?a0) (nat (layers v)) = Inr (e, os, a)"
    "ole_objects md = os" "binary_entries docx = binary_entries a"
    by (auto simp: with_body_def w and_then_simps Let_def binary_entries_append
        dest!: and_then_Inr)
  with a0 show ?thesis by blast
qed

lemma memory_zip_memory_environment: "memory_zip memory_environment"
  by (simp add: memory_zip_def memory_environment_def)

lemma layer_pass_ok:
  assumes "memory_zip env"
    "create_temporal_ole_object v env (2 * nat l) l = Inr obj"
    "create_temporal_ole_object v env (2 * nat l + 1) l = Inr obj'"
  shows "\<exists>r. layer_pass v env st l = Inr r"
proof -
  have w: "\<And>docx n c. writestr env docx n c = Inr (docx @ [(n, c)])"
    using assms(1) by (simp add: writestr_memory)
  obtain e os a where st: "st = (e, os, a)" by (cases st)
  show ?thesis
    using assms(2,3)
    by (simp add: st layer_pass_def generate_vortex_xml_def Let_def w and_then_simps
        raised_in_simps)
qed

lemma layers_loop_ok:
  assumes "memory_zip env"
    "\<And>k i. i < n \<Longrightarrow> \<exists>obj. create_temporal_ole_object v env k (int i) = Inr obj"
  shows "\<exists>r. layers_loop v env st n = Inr r"
  using assms(2)
proof (induction n)
  case 0
  show ?case by (rule exI [of _ st]) simp
next
  case (Suc n)
  have "\<exists>r. layers_loop v env st n = Inr r"
    using Suc.IH Suc.prems by (meson less_Suc_eq)
  then obtain r where r: "layers_loop v env st n = Inr r" ..
  obtain obj where o1: "create_temporal_ole_object v env (2 * nat (int n)) (int n) = Inr obj"
    using Suc.prems [of n] by blast
  obtain obj' where o2: "create_temporal_ole_object v env (2 * nat (int n) + 1) (int n) = Inr obj'"
    using Suc.prems [of n] by blast
  from layer_pass_ok [OF assms(1) o1 o2] obtain r' where "layer_pass v env r (int n) = Inr r'"
    by blast
  with r have "layers_loop v env st (Suc n) = Inr r'" by (simp add: and_then_simps)
  then show ?case ..
qed

lemma try_block_ok:
  assumes "memory_zip env"
    "\<And>st. \<exists>r. layers_loop v env st (nat (layers v)) = Inr r"
  shows "\<exists>md docx. try_block v env = Inr (md, docx)"
proof -
  have w: "\<And>docx n c. writestr env docx n c = Inr (docx @ [(n, c)])"
    using assms(1) by (simp add: writestr_memory)
  have o: "\<And>name. zip_open env name = Inr []"
    and c: "\<And>docx. zip_close env docx = Inr docx"
    using assms(1) by (simp_all add: memory_zip_def)
  obtain r where r: "layers_loop v env
            (0, [], [(ContentTypes, Text (content_types_text env)),
                     (RootRels, Text (relationships_text env)),
                     (DocumentRels, Text (document_rels_text env v)),
                     (DocumentXml, Text (document_xml_text env v))]) (nat (layers v)) = Inr r"
    using assms(2) by blast
  obtain e os a where "r = (e, os, a)" by (cases r)
  with r have "\<exists>md docx. with_body v env [] = Inr (md, docx)"
    by (simp add: with_body_def w and_then_simps Let_def)
  then show ?thesis
    by (auto simp: try_block_def o c)
qed

lemma build_Document:
  "build_sovereign_document v env = Inr (Document md docx) \<longleftrightarrow> try_block v env = Inr (md, docx)"
  by (auto simp: build_sovereign_document_def split: sum.splits)

lemma build_init_memory_ok:
  assumes "memory_zip env"
  shows "\<exists>md docx. build_sovereign_document (OLE_TemporalVortex_init name) env = Inr (Document md docx)"
proof -
  let ?v = "OLE_TemporalVortex_init name"
  have c: "\<And>k i. i < nat (layers ?v) \<Longrightarrow>
      \<exists>obj. create_temporal_ole_object ?v env k (int i) = Inr obj"
    by (rule create_init_ok) (simp_all add: init_fields)
  have "\<And>st. \<exists>r. layers_loop ?v env st (nat (layers ?v)) = Inr r"
    by (rule layers_loop_ok [OF assms c])
  from try_block_ok [OF assms this] show ?thesis by (simp add: build_Document)
qed

text \<open>
  Claim C5, as amended. When the build completes on an archive in memory, the archive
  holds one binary entry for each layer index \<open>0 \<le> l < layers\<close>, in this order, and
  the entry of layer \<open>l\<close> is the whole buffer of that layer's object: the 72-byte
  header followed by the bytes the loop synthesized (so the entry without its first 72
  bytes is the synthesized data). The entries are the \<open>data\<close> fields of the objects
  listed in the returned metadata.
\<close>

theorem binary_entries_hold_header_and_payload:
  assumes "memory_zip env"
    and "build_sovereign_document v env = Inr (Document md docx)"
  shows "map fst (binary_entries docx) = map int [0..<nat (layers v)] \<and>
         map snd (binary_entries docx) = map obj_data (ole_objects md) \<and>
         (\<forall>(l, b) \<in> set (binary_entries docx).
            \<exists>h. generate_vortex_ole_header v l = Inr h \<and> length h = 72 \<and>
                synth_loop v l h (nat (object_size v l)) = Inr b \<and>
                take 72 b = h \<and> length b = 72 + nat (object_size v l))"
proof -
  let ?n = "nat (layers v)"
  from assms(2) have tb: "try_block v env = Inr (md, docx)" by (simp add: build_Document)
  from try_block_memory [OF assms(1) tb] obtain e os a a0 where
    a0: "binary_entries a0 = []"
    and loop: "layers_loop v env (0, [], a0) ?n = Inr (e, os, a)"
    and md: "ole_objects md = os" and be: "binary_entries docx = binary_entries a"
    by blast
  from layers_loop_memory [OF assms(1) loop] obtain objs where
    objs: "os = [] @ objs" "length objs = ?n"
      "binary_entries a = binary_entries a0 @ map (\<lambda>i. (int i, obj_data (objs ! i))) [0..<?n]"
      "\<forall>i<?n. \<exists>k. create_temporal_ole_object v env k (int i) = Inr (objs ! i)"
    by blast
  have eq: "binary_entries docx = map (\<lambda>i. (int i, obj_data (objs ! i))) [0..<?n]"
    using be objs(3) a0 by simp
  have 1: "map fst (binary_entries docx) = map int [0..<?n]"
    by (simp add: eq comp_def)
  have "map snd (binary_entries docx) = map (\<lambda>i. obj_data (objs ! i)) [0..<?n]"
    by (simp add: eq comp_def)
  also have "\<dots> = map obj_data (map (\<lambda>i. objs ! i) [0..<length objs])"
    by (simp add: objs(2) comp_def)
  also have "\<dots> = map obj_data objs" by (simp add: map_nth)
  finally have 2: "map snd (binary_entries docx) = map obj_data (ole_objects md)"
    using md objs(1) by simp
  have 3: "\<forall>(l, b) \<in> set (binary_entries docx).
            \<exists>h. generate_vortex_ole_header v l = Inr h \<and> length h = 72 \<and>
                synth_loop v l h (nat (object_size v l)) = Inr b \<and>
                take 72 b = h \<and> length b = 72 + nat (object_size v l)"
  proof (clarify)
    fix l b assume "(l, b) \<in> set (binary_entries docx)"
    then obtain i where i: "i < ?n" "l = int i" "b = obj_data (objs ! i)"
      unfolding eq by auto
    from objs(4) i(1) obtain k where
      k: "create_temporal_ole_object v env k (int i) = Inr (objs ! i)" by blast
    from create_cases [OF k] obtain h where
      h: "generate_vortex_ole_header v (int i) = Inr h"
      and d: "synth_loop v (int i) h (nat (object_size v (int i))) = Inr (obj_data (objs ! i))"
      by blast
    from header_length [OF h] synth_loop_shape [OF d] h d i
    show "\<exists>h. generate_vortex_ole_header v l = Inr h \<and> length h = 72 \<and>
                synth_loop v l h (nat (object_size v l)) = Inr b \<and>
                take 72 b = h \<and> length b = 72 + nat (object_size v l)"
      by auto
  qed
  from 1 2 3 show ?thesis by blast
qed

theorem binary_entries_hold_header_and_payload_witness:
  "memory_zip memory_environment \<and>
   (\<exists>md docx. build_sovereign_document
        (OLE_TemporalVortex_init ''SCTT_Sovereign_Manifest.docx'') memory_environment =
          Inr (Document md docx) \<and>
      map fst (binary_entries docx) = map int [0..<33] \<and>
      map snd (binary_entries docx) = map obj_data (ole_objects md) \<and>
      (\<forall>(l, b) \<in> set (binary_entries docx). length b = 72 + nat (object_size
          (OLE_TemporalVortex_init ''SCTT_Sovereign_Manifest.docx'') l)))"
proof -
  let ?v = "OLE_TemporalVortex_init ''SCTT_Sovereign_Manifest.docx''"
  obtain md docx where b: "build_sovereign_document ?v memory_environment = Inr (Document md docx)"
    using build_init_memory_ok [OF memory_zip_memory_environment] by blast
  from binary_entries_hold_header_and_payload [OF memory_zip_memory_environment b]
  have "map fst (binary_entries docx) = map int [0..<33]"
    and "map snd (binary_entries docx) = map obj_data (ole_objects md)"
    and "\<forall>(l, b) \<in> set (binary_entries docx). length b = 72 + nat (object_size ?v l)"
    by (auto simp: init_fields)
  with b memory_zip_memory_environment show ?thesis by blast
qed

text \<open>
  Claim C5 as stated fails: with the default object the binary entry written for
  layer 0 has 1096 bytes, while the byte count of layer 0 is 1024: the entry starts
  with the 72 header bytes.
\<close>

theorem binary_entry_payload_only_counterexample:
  "(case build_sovereign_document
           (OLE_TemporalVortex_init ''SCTT_Sovereign_Manifest.docx'') memory_environment of
      Inr (Document md docx) \<Rightarrow>
        (case binary_entries docx of
           (l, b) # rest \<Rightarrow>
              l = 0 \<and> length b = 1096 \<and>
              nat (object_size (OLE_TemporalVortex_init ''SCTT_Sovereign_Manifest.docx'') 0) = 1024
         | [] \<Rightarrow> False)
    | _ \<Rightarrow> False)"
proof -
  let ?v = "OLE_TemporalVortex_init ''SCTT_Sovereign_Manifest.docx''"
  obtain md docx where b: "build_sovereign_document ?v memory_environment = Inr (Document md docx)"
    using build_init_memory_ok [OF memory_zip_memory_environment] by blast
  then have tb: "try_block ?v memory_environment = Inr (md, docx)" by (simp add: build_Document)
  from try_block_memory [OF memory_zip_memory_environment tb] obtain e os a a0 where
    a0: "binary_entries a0 = []"
    and loop: "layers_loop ?v memory_environment (0, [], a0) (nat (layers ?v)) = Inr (e, os, a)"
    and be: "binary_entries docx = binary_entries a"
    by blast
  from layers_loop_memory [OF memory_zip_memory_environment loop] obtain objs where
    objs: "binary_entries a =
        binary_entries a0 @ map (\<lambda>i. (int i, obj_data (objs ! i))) [0..<nat (layers ?v)]"
      "\<forall>i<nat (layers ?v). \<exists>k. create_temporal_ole_object ?v memory_environment k (int i) = Inr (objs ! i)"
    by blast
  have n: "nat (layers ?v) = Suc 32" by (simp add: init_fields)
  have eq: "binary_entries docx =
      (0, obj_data (objs ! 0)) # map (\<lambda>i. (int i, obj_data (objs ! i))) [Suc 0..<Suc 32]"
    using be objs(1) a0 unfolding n by (simp add: upt_rec)
  from objs(2) obtain k where
    k: "create_temporal_ole_object ?v memory_environment k 0 = Inr (objs ! 0)"
    unfolding n by force
  from create_data_shape [OF k] create_cases [OF k]
  have "length (obj_data (objs ! 0)) = 72 + nat (object_size ?v 0)" by auto
  then have "length (obj_data (objs ! 0)) = 1096" by (simp add: object_size_init_0)
  then show ?thesis by (simp add: b eq object_size_init_0)
qed

subsection \<open>Failures during the build\<close>

lemma header_layer0_alpha0:
  "alpha v = 0 \<Longrightarrow> \<exists>h. generate_vortex_ole_header v 0 = Inr h"
  using header_eval_nonneg [of 0 v] by simp

lemma object_size_layer0: "object_size v 0 = 1024"
  by (simp add: object_size_def py_int_def)

lemma create_alpha_zero:
  assumes "alpha v = 0"
  shows "create_temporal_ole_object v env k 0 = Inl ZeroDivisionError"
proof -
  obtain h where h: "generate_vortex_ole_header v 0 = Inr h"
    using header_layer0_alpha0 [OF assms] by blast
  have l: "synth_loop v 0 h (nat (object_size v 0)) = Inl ZeroDivisionError"
    by (rule synth_loop_alpha_zero [OF assms]) (simp add: object_size_layer0)
  have o: "calculate_ole_temporal_offset v (time_time env k) 0 = Inl ZeroDivisionError \<or>
        (\<exists>r. calculate_ole_temporal_offset v (time_time env k) 0 = Inr r)"
    by (simp add: calculate_ole_temporal_offset_def Let_def)
  then show ?thesis
    using h l by (auto simp: create_temporal_ole_object_def Let_def)
qed

lemma header_negative_alpha:
  assumes "alpha v * 1000000 \<le> - 1"
  shows "generate_vortex_ole_header v 0 = Inl StructError"
proof -
  have "py_int (alpha v * 1000000) < 0" using assms by (simp add: py_int_def)
  moreover have "total_sectors v 0 = 4096" by (simp add: total_sectors_def py_int_def)
  ultimately show ?thesis
    by (simp add: generate_vortex_ole_header_def pack_H_def pack_I_def)
qed

lemma create_negative_alpha:
  assumes "alpha v * 1000000 \<le> - 1"
  shows "\<exists>e. create_temporal_ole_object v env k 0 = Inl e"
  using header_negative_alpha [OF assms]
  by (cases "calculate_ole_temporal_offset v (time_time env k) 0")
     (simp_all add: create_temporal_ole_object_def Let_def)

lemma layer_pass_create_fails:
  assumes "create_temporal_ole_object v env (2 * nat l) l = Inl e"
  shows "\<exists>d. layer_pass v env st l = Inl (e, d)"
proof -
  obtain es os a where st: "st = (es, os, a)" by (cases st)
  show ?thesis
    using assms by (simp add: st layer_pass_def Let_def and_then_simps raised_in_simps)
qed

lemma layers_loop_first_fails:
  assumes "create_temporal_ole_object v env 0 0 = Inl e" "0 < n"
  shows "\<exists>d. layers_loop v env st n = Inl (e, d)"
  using assms(2)
proof (induction n)
  case 0
  then show ?case by simp
next
  case (Suc n)
  show ?case
  proof (cases "n = 0")
    case True
    have "\<exists>d. layer_pass v env st 0 = Inl (e, d)"
      by (rule layer_pass_create_fails) (simp add: assms(1))
    with True show ?thesis by (simp add: and_then_simps)
  next
    case False
    with Suc.IH obtain d where "layers_loop v env st n = Inl (e, d)" by auto
    then show ?thesis by (simp add: and_then_simps)
  qed
qed

lemma try_block_cases:
  "(\<exists>e. try_block v env = Inl e) \<or> (\<exists>md d d'. with_body v env d = Inr (md, d'))"
  by (auto simp: try_block_def split: sum.splits)

lemma with_body_loop_fails:
  assumes "\<And>st. \<exists>e d. layers_loop v env st (nat (layers v)) = Inl (e, d)"
  shows "\<exists>e d'. with_body v env d = Inl (e, d')"
proof -
  have "with_body v env d = Inr r \<Longrightarrow> False" for r
  proof -
    assume "with_body v env d = Inr r"
    then obtain st x where "layers_loop v env st (nat (layers v)) = Inr x"
      unfolding with_body_def by (auto dest!: and_then_Inr)
    with assms [of st] show False by auto
  qed
  then show ?thesis by (cases "with_body v env d") auto
qed

lemma try_block_first_layer_fails:
  assumes "create_temporal_ole_object v env 0 0 = Inl e0" "0 < layers v"
  shows "\<exists>e. try_block v env = Inl e"
proof -
  have n: "0 < nat (layers v)" using assms(2) by simp
  have l: "\<And>st. \<exists>e d. layers_loop v env st (nat (layers v)) = Inl (e, d)"
    using layers_loop_first_fails [OF assms(1) n] by blast
  have "\<not> (\<exists>md d d'. with_body v env d = Inr (md, d'))"
    using with_body_loop_fails [OF l] by (metis Inl_Inr_False)
  with try_block_cases [of v env] show ?thesis by blast
qed


text \<open>
  Claim C6, as amended. The constructor takes only the output file name and fixes
  \<open>alpha = 0.0302011\<close>, 33 layers and eight primes, all valid: it rejects nothing,
  and the code has no configuration error. When \<open>alpha\<close> is 0, or at most
  \<open>-1e-6\<close>, at the time of the build and there is at least one layer, the build
  raises nothing: the exception of the first layer (the division \<open>1/alpha\<close>, or the
  packing of the negative \<open>int(alpha * 1e6)\<close>) is caught and the build returns an
  error dictionary.
\<close>

theorem no_configuration_check:
  "0 < alpha (OLE_TemporalVortex_init name) \<and> 0 < layers (OLE_TemporalVortex_init name) \<and>
   prime_windows (OLE_TemporalVortex_init name) \<noteq> [] \<and>
   ((alpha v = 0 \<or> alpha v * 1000000 \<le> - 1) \<longrightarrow> 0 < layers v \<longrightarrow>
      (\<exists>e. build_sovereign_document v env = Inr (ErrorDict e)))"
proof -
  have b: "\<exists>e. build_sovereign_document v env = Inr (ErrorDict e)"
    if a: "alpha v = 0 \<or> alpha v * 1000000 \<le> - 1" and n: "0 < layers v"
  proof -
    from a have "\<exists>e0. create_temporal_ole_object v env 0 0 = Inl e0"
      using create_alpha_zero [of v env 0] create_negative_alpha [of v env 0] by blast
    then obtain e0 where "create_temporal_ole_object v env 0 0 = Inl e0" ..
    from try_block_first_layer_fails [OF this n] obtain e where "try_block v env = Inl e" ..
    then show ?thesis by (simp add: build_sovereign_document_def)
  qed
  show ?thesis using b by (simp add: init_fields)
qed

theorem no_configuration_check_witness:
  "alpha ((OLE_TemporalVortex_init ''SCTT_Sovereign_Manifest.docx'')\<lparr>alpha := 0\<rparr>) = 0 \<and>
   0 < layers ((OLE_TemporalVortex_init ''SCTT_Sovereign_Manifest.docx'')\<lparr>alpha := 0\<rparr>) \<and>
   (\<exists>e. build_sovereign_document
           ((OLE_TemporalVortex_init ''SCTT_Sovereign_Manifest.docx'')\<lparr>alpha := 0\<rparr>)
           memory_environment = Inr (ErrorDict e))"
proof -
  let ?v = "(OLE_TemporalVortex_init ''SCTT_Sovereign_Manifest.docx'')\<lparr>alpha := 0\<rparr>"
  have a: "alpha ?v = 0" by simp
  have n: "0 < layers ?v" by (simp add: init_fields)
  from no_configuration_check [of "''x''" ?v memory_environment] a n
  show ?thesis by blast
qed

text \<open>
  Claim C6 as stated fails: with \<open>alpha = 0\<close> and the archive in memory the build
  raises no exception; it returns the error dictionary of the \<open>ZeroDivisionError\<close>
  met in the byte loop of layer 0, after the four fixed entries were written.
\<close>

theorem configuration_error_counterexample:
  "build_sovereign_document
     ((OLE_TemporalVortex_init ''SCTT_Sovereign_Manifest.docx'')\<lparr>alpha := 0\<rparr>)
     memory_environment = Inr (ErrorDict ZeroDivisionError)"
proof -
  define v where "v = (OLE_TemporalVortex_init ''SCTT_Sovereign_Manifest.docx'')\<lparr>alpha := 0\<rparr>"
  have a: "alpha v = 0" by (simp add: v_def)
  have n: "0 < nat (layers v)" by (simp add: v_def init_fields)
  have c: "create_temporal_ole_object v memory_environment 0 0 = Inl ZeroDivisionError"
    by (rule create_alpha_zero [OF a])
  have w: "\<And>docx n c. writestr memory_environment docx n c = Inr (docx @ [(n, c)])"
    by (simp add: writestr_memory memory_zip_memory_environment)
  have o: "\<And>name. zip_open memory_environment name = Inr []"
    and cl: "\<And>docx. zip_close memory_environment docx = Inr docx"
    using memory_zip_memory_environment by (simp_all add: memory_zip_def)
  let ?a0 = "[(ContentTypes, Text (content_types_text memory_environment)),
              (RootRels, Text (relationships_text memory_environment)),
              (DocumentRels, Text (document_rels_text memory_environment v)),
              (DocumentXml, Text (document_xml_text memory_environment v))]"
  obtain d where l: "layers_loop v memory_environment (0, [], ?a0) (nat (layers v)) =
      Inl (ZeroDivisionError, d)"
    using layers_loop_first_fails [OF c n] by blast
  have "with_body v memory_environment [] = Inl (ZeroDivisionError, d)"
    by (simp add: with_body_def w and_then_simps l)
  then have "try_block v memory_environment = Inl ZeroDivisionError"
    by (simp add: try_block_def o cl)
  then show ?thesis by (simp add: build_sovereign_document_def v_def)
qed

subsection \<open>Failures of the archive\<close>
















end
